theory Spec2Isabelle
  imports Complex_Main "HOL-Library.Word"
begin

section \<open>Notification sound generators: a shallow embedding\<close>

text \<open>
  The three scripts \<^verbatim>\<open>scripts/generate-sounds.py\<close>, \<^verbatim>\<open>scripts/add-mechanical-sound.py\<close>
  and \<^verbatim>\<open>plugins/notifier/scripts/add-thock-sounds.py\<close> synthesise short sounds sample by
  sample and write them as 16-bit mono WAV files.

  Modelling decisions:
  \<^item> Python floats are modelled as \<^typ>\<open>real\<close>: \<open>math.sin\<close>, \<open>math.exp\<close> and \<open>math.pi\<close> are
    \<^const>\<open>sin\<close>, \<^const>\<open>exp\<close> and \<^const>\<open>pi\<close>; rounding error of IEEE doubles is not modelled.
  \<^item> Python's \<open>int(x)\<close> on a float truncates towards zero (\<open>py_int\<close>).
  \<^item> The module-level generator of \<open>random\<close> is global state: it is threaded through
    every function that draws from it. Its state is the stream of the draws to come;
    \<open>random.seed(k)\<close> replaces it by the stream \<open>mt k\<close>, where the seeding function \<open>mt\<close>
    (the Mersenne Twister of the Python library) is a parameter.
  \<^item> The destination is an explicit store from file names to WAV contents; a frame
    write fails with \<open>OSError\<close> when the store has no room left.
  \<^item> Exceptions are values of type \<open>error\<close>.
\<close>

subsection \<open>Python primitives\<close>

datatype error = ValueError | ZeroDivisionError | StructError | OSError

definition py_int :: "real \<Rightarrow> int" where
  "py_int x = (if 0 \<le> x then \<lfloor>x\<rfloor> else \<lceil>x\<rceil>)"

definition sample_rate :: real where
  "sample_rate = 44100"

text \<open>\<open>[0.0] * n\<close>: a list of \<open>n\<close> zeros, empty when \<open>n\<close> is not positive.\<close>

definition zeros :: "int \<Rightarrow> real list" where
  "zeros n = replicate (nat n) 0"

type_synonym rng = "nat \<Rightarrow> real"

text \<open>\<open>random.random()\<close>: the next draw, and the generator advanced by one.\<close>

definition random_random :: "rng \<Rightarrow> real \<times> rng" where
  "random_random g = (g 0, (\<lambda>k. g (Suc k)))"

text \<open>
  \<open>random.seed(k)\<close>: the state of the generator is replaced by the stream \<open>mt k\<close>,
  whatever it was.
\<close>

definition random_seed :: "(int \<Rightarrow> rng) \<Rightarrow> int \<Rightarrow> rng \<Rightarrow> rng" where
  "random_seed mt k g = mt k"

text \<open>\<open>struct.pack('h', v)\<close> raises \<open>struct.error\<close> outside the signed 16-bit range.\<close>

definition pack_h :: "int \<Rightarrow> error + 16 word" where
  "pack_h v = (if - 32768 \<le> v \<and> v \<le> 32767 then Inr (word_of_int v) else Inl StructError)"

subsection \<open>The mixing loops\<close>

text \<open>
  \<^verbatim>\<open>for i in range(min(count, num_samples)): samples[i] += f(i)\<close>
  (component 1 and the noise burst of the single-click generators).
\<close>

definition add_head :: "int \<Rightarrow> int \<Rightarrow> (nat \<Rightarrow> real) \<Rightarrow> real list \<Rightarrow> real list" where
  "add_head num_samples count f samples =
     fold (\<lambda>i s. s[i := s ! i + f i]) [0..<nat (min count num_samples)] samples"

text \<open>
  \<^verbatim>\<open>for i in range(count):
      sample_idx = start + i
      if sample_idx < num_samples: samples[sample_idx] += f(i)\<close>
  At every call the start index is the truncation of a time that is not negative (in the click
  sequences because the draws of \<open>random.random()\<close> lie in \<open>[0, 1)\<close>), so
  \<open>sample_idx\<close> is not negative and Python's indexing from the end of the list does not arise;
  the buffer always has \<open>num_samples\<close> elements, so the index is in range.
\<close>

definition add_from :: "int \<Rightarrow> int \<Rightarrow> int \<Rightarrow> (nat \<Rightarrow> real) \<Rightarrow> real list \<Rightarrow> real list" where
  "add_from num_samples start count f samples =
     fold (\<lambda>i s. let sample_idx = start + int i in
                  if sample_idx < num_samples
                  then s[nat sample_idx := s ! nat sample_idx + f i] else s)
          [0..<nat count] samples"

text \<open>The same two loops when the body draws one random number in each iteration it runs.\<close>

definition add_head_rand ::
  "int \<Rightarrow> int \<Rightarrow> (nat \<Rightarrow> real \<Rightarrow> real) \<Rightarrow> real list \<times> rng \<Rightarrow> real list \<times> rng" where
  "add_head_rand num_samples count f =
     fold (\<lambda>i (s, g). let (r, g') = random_random g in (s[i := s ! i + f i r], g'))
          [0..<nat (min count num_samples)]"

definition add_from_rand ::
  "int \<Rightarrow> int \<Rightarrow> int \<Rightarrow> (nat \<Rightarrow> real \<Rightarrow> real) \<Rightarrow> real list \<times> rng \<Rightarrow> real list \<times> rng" where
  "add_from_rand num_samples start count f =
     fold (\<lambda>i (s, g). let sample_idx = start + int i in
                  if sample_idx < num_samples
                  then let (r, g') = random_random g
                       in (s[nat sample_idx := s ! nat sample_idx + f i r], g')
                  else (s, g))
          [0..<nat count]"

subsection \<open>The WAV store\<close>

record wav =
  nchannels :: nat
  sampwidth :: nat
  framerate :: nat
  frames :: "16 word list"

record disk =
  files :: "string \<rightharpoonup> wav"
  room :: nat

text \<open>
  \<^verbatim>\<open>wave.open(filename, 'w')\<close> followed by \<^verbatim>\<open>setnchannels(1)\<close>,
  \<^verbatim>\<open>setsampwidth(2)\<close>, \<^verbatim>\<open>setframerate(sample_rate)\<close>: the destination itself is
  opened for writing and truncated.
\<close>

definition wave_open :: "string \<Rightarrow> disk \<Rightarrow> disk" where
  "wave_open filename d =
     d\<lparr>files := (files d)(filename \<mapsto>
          \<lparr>nchannels = 1, sampwidth = 2, framerate = 44100, frames = []\<rparr>)\<rparr>"

definition writeframes :: "string \<Rightarrow> 16 word \<Rightarrow> disk \<Rightarrow> error + disk" where
  "writeframes filename w d =
     (if room d = 0 then Inl OSError
      else case files d filename of
             None \<Rightarrow> Inl OSError
           | Some f \<Rightarrow> Inr (d\<lparr>files := (files d)(filename \<mapsto> f\<lparr>frames := frames f @ [w]\<rparr>),
                              room := room d - 1\<rparr>))"

text \<open>
  \<^verbatim>\<open>for sample in samples:
      sample_int = conv(sample)
      wav_file.writeframes(struct.pack('h', sample_int))\<close>
  An exception leaves the store as it is at that moment.
\<close>

fun write_loop :: "string \<Rightarrow> ('a \<Rightarrow> int) \<Rightarrow> 'a list \<Rightarrow> disk \<Rightarrow> (error + unit) \<times> disk" where
  "write_loop filename conv [] d = (Inr (), d)"
| "write_loop filename conv (sample # samples) d =
     (case pack_h (conv sample) of
        Inl e \<Rightarrow> (Inl e, d)
      | Inr w \<Rightarrow> (case writeframes filename w d of
                   Inl e \<Rightarrow> (Inl e, d)
                 | Inr d' \<Rightarrow> write_loop filename conv samples d'))"

definition write_wav :: "string \<Rightarrow> ('a \<Rightarrow> int) \<Rightarrow> 'a list \<Rightarrow> disk \<Rightarrow> (error + unit) \<times> disk" where
  "write_wav filename conv samples d = write_loop filename conv samples (wave_open filename d)"

subsection \<open>Quantisation\<close>

text \<open>\<^verbatim>\<open>sample_int = int(max(-32767, min(32767, sample * 32767)))\<close>\<close>

definition sample_int_clamped :: "real \<Rightarrow> int" where
  "sample_int_clamped sample = py_int (max (- 32767) (min 32767 (sample * 32767)))"

text \<open>\<^verbatim>\<open>sample_int = int(sample * 32767)\<close>\<close>

definition sample_int_plain :: "real \<Rightarrow> int" where
  "sample_int_plain sample = py_int (sample * 32767)"

subsection \<open>Normalise, then apply the volume\<close>

text \<open>
  \<^verbatim>\<open>max_sample = max(abs(s) for s in samples)
  if max_sample > 0:
      normalization = 1.0 / max_sample
      samples = [s * normalization for s in samples]
  samples = [s * volume for s in samples]\<close>
  \<open>max\<close> of an empty sequence raises \<open>ValueError\<close>.
\<close>

definition final_pass :: "real list \<Rightarrow> real \<Rightarrow> error + real list" where
  "final_pass samples volume =
     (if samples = [] then Inl ValueError
      else let max_sample = Max (set (map abs samples));
               samples = (if max_sample > 0
                          then let normalization = 1.0 / max_sample
                               in map (\<lambda>s. s * normalization) samples
                          else samples)
           in Inr (map (\<lambda>s. s * volume) samples))"

text \<open>The final pass followed by the quantising write loop, as the values handed to \<open>struct.pack\<close>.\<close>

definition encode :: "real list \<Rightarrow> real \<Rightarrow> error + int list" where
  "encode samples volume =
     (case final_pass samples volume of
        Inl e \<Rightarrow> Inl e
      | Inr samples' \<Rightarrow> Inr (map sample_int_clamped samples'))"

definition finish :: "string \<Rightarrow> real list \<Rightarrow> real \<Rightarrow> disk \<Rightarrow> (error + unit) \<times> disk" where
  "finish filename samples volume d =
     (case final_pass samples volume of
        Inl e \<Rightarrow> (Inl e, d)
      | Inr samples' \<Rightarrow> write_wav filename sample_int_clamped samples' d)"

subsection \<open>\<^verbatim>\<open>scripts/generate-sounds.py\<close>\<close>

fun collect :: "(error + 'a) list \<Rightarrow> error + 'a list" where
  "collect [] = Inr []"
| "collect (x # xs) =
     (case x of
        Inl e \<Rightarrow> Inl e
      | Inr v \<Rightarrow> (case collect xs of Inl e \<Rightarrow> Inl e | Inr vs \<Rightarrow> Inr (v # vs)))"

text \<open>The fades shared by \<open>generate_tone\<close> and \<open>generate_chord\<close>: fade out, then fade in.\<close>

definition fade_out_in :: "int \<Rightarrow> nat \<Rightarrow> real \<Rightarrow> real" where
  "fade_out_in num_samples i sample =
     (let sample = (if real i > real_of_int num_samples * 0.8
                    then sample * (1.0 - ((real i - real_of_int num_samples * 0.8)
                                           / (real_of_int num_samples * 0.2)))
                    else sample);
          sample = (if real i < real_of_int num_samples * 0.05
                    then sample * (real i / (real_of_int num_samples * 0.05))
                    else sample)
      in sample)"

definition tone_values :: "real \<Rightarrow> real \<Rightarrow> real \<Rightarrow> int list" where
  "tone_values frequency duration volume =
     (let num_samples = py_int (sample_rate * duration)
      in map (\<lambda>i. let sample = volume * sin (2 * pi * frequency * real i / sample_rate);
                      sample = fade_out_in num_samples i sample
                  in py_int (sample * 32767))
             [0..<nat num_samples])"

definition generate_tone ::
  "string \<Rightarrow> real \<Rightarrow> real \<Rightarrow> real \<Rightarrow> disk \<Rightarrow> (error + unit) \<times> disk" where
  "generate_tone filename frequency duration volume d =
     write_wav filename id (tone_values frequency duration volume) d"

definition chord_sample :: "real list \<Rightarrow> int \<Rightarrow> real \<Rightarrow> nat \<Rightarrow> error + int" where
  "chord_sample frequencies num_samples volume i =
     (let sample = fold (\<lambda>freq sample. sample + volume * sin (2 * pi * freq * real i / sample_rate))
                        frequencies 0
      in if length frequencies = 0 then Inl ZeroDivisionError
         else let sample = sample / real (length frequencies);
                  sample = fade_out_in num_samples i sample
              in Inr (py_int (sample * 32767)))"

definition chord_values :: "real list \<Rightarrow> real \<Rightarrow> real \<Rightarrow> error + int list" where
  "chord_values frequencies duration volume =
     (let num_samples = py_int (sample_rate * duration)
      in collect (map (chord_sample frequencies num_samples volume) [0..<nat num_samples]))"

definition generate_chord ::
  "string \<Rightarrow> real list \<Rightarrow> real \<Rightarrow> real \<Rightarrow> disk \<Rightarrow> (error + unit) \<times> disk" where
  "generate_chord filename frequencies duration volume d =
     (case chord_values frequencies duration volume of
        Inl e \<Rightarrow> (Inl e, d)
      | Inr samples \<Rightarrow> write_wav filename id samples d)"

text \<open>\<^verbatim>\<open>freq_variation = 1.0 + (random.random() - 0.5) * 0.1\<close>, as a function of the draw.\<close>

definition keyboard_freq_variation :: "real \<Rightarrow> real" where
  "keyboard_freq_variation r = 1.0 + (r - 0.5) * 0.1"

text \<open>The body of the inner loop of \<open>generate_keyboard_click\<close>; \<open>r\<close> is the noise draw.\<close>

definition keyboard_click_wave :: "real \<Rightarrow> int \<Rightarrow> real list \<Rightarrow> nat \<Rightarrow> real \<Rightarrow> real" where
  "keyboard_click_wave volume click_samples frequencies i r =
     (let sample = fold (\<lambda>freq sample. sample + volume * sin (2 * pi * freq * real i / sample_rate))
                        frequencies 0;
          noise = (r - 0.5) * volume * 0.15;
          sample = sample + noise;
          sample = sample / (real (length frequencies) + 1);
          sample = (if real i < real_of_int click_samples * 0.1
                    then let attack = real i / (real_of_int click_samples * 0.1)
                         in sample * (attack * attack)
                    else sample);
          sample = (if real i > real_of_int click_samples * 0.3
                    then let decay_progress = (real i - real_of_int click_samples * 0.3)
                                              / (real_of_int click_samples * 0.7);
                             decay = 1.0 - (decay_progress * decay_progress)
                         in sample * decay
                    else sample)
      in sample)"

definition keyboard_click_step ::
  "int \<Rightarrow> real \<Rightarrow> nat \<Rightarrow> real list \<times> rng \<Rightarrow> real list \<times> rng" where
  "keyboard_click_step num_samples volume click_num = (\<lambda>(samples, g).
     let click_duration = 0.025;
         gap_duration = 0.035;
         start_time = real click_num * (click_duration + gap_duration);
         start_sample = py_int (start_time * sample_rate);
         click_samples = py_int (click_duration * sample_rate);
         (r, g) = random_random g;
         freq_variation = keyboard_freq_variation r;
         frequencies = [3000 * freq_variation, 4500 * freq_variation, 6000 * freq_variation]
     in add_from_rand num_samples start_sample click_samples
          (keyboard_click_wave volume click_samples frequencies) (samples, g))"

definition keyboard_click_num_samples :: "int \<Rightarrow> int" where
  "keyboard_click_num_samples num_clicks =
     (let click_duration = 0.025;
          gap_duration = 0.035;
          total_duration = (click_duration * real_of_int num_clicks)
                           + (gap_duration * real_of_int (num_clicks - 1))
      in py_int (sample_rate * total_duration))"

definition keyboard_click_mix :: "int \<Rightarrow> real \<Rightarrow> rng \<Rightarrow> real list \<times> rng" where
  "keyboard_click_mix num_clicks volume g =
     (let num_samples = keyboard_click_num_samples num_clicks;
          samples = zeros num_samples
      in fold (keyboard_click_step num_samples volume) [0..<nat num_clicks] (samples, g))"

definition generate_keyboard_click ::
  "string \<Rightarrow> int \<Rightarrow> real \<Rightarrow> rng \<Rightarrow> disk \<Rightarrow> (error + unit) \<times> rng \<times> disk" where
  "generate_keyboard_click filename num_clicks volume g d =
     (let (samples, g') = keyboard_click_mix num_clicks volume g;
          (res, d') = write_wav filename sample_int_clamped samples d
      in (res, g', d'))"

text \<open>The ascending melody \<open>complete.wav\<close>, written inline in \<open>main\<close>.\<close>

definition complete_wave :: "real \<Rightarrow> int \<Rightarrow> nat \<Rightarrow> real" where
  "complete_wave freq tone_samples i =
     (let sample = 0.25 * sin (2 * pi * freq * real i / sample_rate);
          sample = (if real i < real_of_int tone_samples * 0.05
                    then sample * (real i / (real_of_int tone_samples * 0.05))
                    else sample);
          sample = (if real i > real_of_int tone_samples * 0.8
                    then let fade = 1.0 - ((real i - real_of_int tone_samples * 0.8)
                                            / (real_of_int tone_samples * 0.2))
                         in sample * fade
                    else sample)
      in sample)"

definition complete_tone :: "int \<Rightarrow> real \<times> real \<times> real \<Rightarrow> real list \<Rightarrow> real list" where
  "complete_tone num_samples = (\<lambda>(freq, start_time, tone_duration) samples.
     let start_sample = py_int (start_time * sample_rate);
         tone_samples = py_int (tone_duration * sample_rate)
     in add_from num_samples start_sample tone_samples (complete_wave freq tone_samples) samples)"

definition complete_tones :: "(real \<times> real \<times> real) list" where
  "complete_tones = [(523.25, 0.0, 0.15), (659.25, 0.15, 0.15), (783.99, 0.3, 0.3)]"

definition complete_mix :: "(real \<times> real \<times> real) list \<Rightarrow> real list" where
  "complete_mix tones =
     (let duration = 0.6;
          num_samples = py_int (sample_rate * duration);
          samples = zeros num_samples
      in fold (complete_tone num_samples) tones samples)"

definition path_join :: "string \<Rightarrow> string \<Rightarrow> string" where
  "path_join dir name = dir @ ''/'' @ name"

text \<open>
  \<open>main\<close>, without the printing and the creation of the directory. An exception ends it.
\<close>

definition main :: "(int \<Rightarrow> rng) \<Rightarrow> string \<Rightarrow> rng \<Rightarrow> disk \<Rightarrow> (error + unit) \<times> rng \<times> disk" where
  "main mt sounds_dir g d =
     (case generate_chord (path_join sounds_dir ''bell.wav'') [800, 1000, 1200] 0.4 0.25 d of
        (Inl e, d) \<Rightarrow> (Inl e, g, d)
      | (Inr _, d) \<Rightarrow>
     (case generate_chord (path_join sounds_dir ''chime.wav'') [1046.50, 1318.51] 0.5 0.3 d of
        (Inl e, d) \<Rightarrow> (Inl e, g, d)
      | (Inr _, d) \<Rightarrow>
     (case generate_tone (path_join sounds_dir ''subtle.wav'') 880 0.15 0.2 d of
        (Inl e, d) \<Rightarrow> (Inl e, g, d)
      | (Inr _, d) \<Rightarrow>
     (case write_wav (path_join sounds_dir ''complete.wav'') sample_int_plain
             (complete_mix complete_tones) d of
        (Inl e, d) \<Rightarrow> (Inl e, g, d)
      | (Inr _, d) \<Rightarrow>
     (case generate_keyboard_click (path_join sounds_dir ''click.wav'') 1 0.15
             (random_seed mt 42 g) d of
        (Inl e, g, d) \<Rightarrow> (Inl e, g, d)
      | (Inr _, g, d) \<Rightarrow>
        generate_keyboard_click (path_join sounds_dir ''clicks.wav'') 3 0.15
          (random_seed mt 43 g) d)))))"

subsection \<open>\<^verbatim>\<open>scripts/add-mechanical-sound.py\<close>\<close>

text \<open>The four components of a mechanical click, as functions of the sample index.\<close>

definition mech_click_wave :: "real \<Rightarrow> nat \<Rightarrow> real" where
  "mech_click_wave click_freq i =
     (let t = real i / sample_rate;
          envelope = exp (- t * 180);
          sample = 0;
          sample = sample + sin (2 * pi * click_freq * t) * envelope;
          sample = sample + 0.5 * sin (2 * pi * click_freq * 2 * t) * envelope;
          sample = sample + 0.3 * sin (2 * pi * click_freq * 3 * t) * envelope
      in sample * 0.6)"

definition mech_clack_wave :: "real \<Rightarrow> nat \<Rightarrow> real" where
  "mech_clack_wave clack_freq i =
     (let t = real i / sample_rate;
          envelope = exp (- t * 100);
          sample = sin (2 * pi * clack_freq * t) * envelope;
          sample = sample + 0.4 * sin (2 * pi * clack_freq * 1.5 * t) * envelope
      in sample * 0.5)"

definition mech_thock_wave :: "real \<Rightarrow> nat \<Rightarrow> real" where
  "mech_thock_wave thock_freq i =
     (let t = real i / sample_rate;
          envelope = exp (- t * 50);
          sample = sin (2 * pi * thock_freq * t) * envelope;
          sample = sample + 0.3 * sin (2 * pi * thock_freq * 2 * t) * envelope
      in sample * 0.4)"

definition mech_noise_wave :: "nat \<Rightarrow> real \<Rightarrow> real" where
  "mech_noise_wave i r =
     (let t = real i / sample_rate;
          envelope = exp (- t * 150);
          noise = (r - 0.5) * 2.0
      in noise * envelope * 0.15)"

text \<open>Component 2 of \<open>generate_mechanical_keyboard_click\<close> (the clack), lines 52 to 69.\<close>

definition mech_clack :: "int \<Rightarrow> real list \<Rightarrow> real list" where
  "mech_clack num_samples samples =
     (let clack_start = 0.003;
          clack_duration = 0.015;
          clack_start_sample = py_int (clack_start * sample_rate);
          clack_samples = py_int (clack_duration * sample_rate);
          clack_freq = 2000
      in add_from num_samples clack_start_sample clack_samples (mech_clack_wave clack_freq) samples)"

definition mech_click :: "int \<Rightarrow> real list \<Rightarrow> real list" where
  "mech_click num_samples samples =
     (let click_duration = 0.008;
          click_samples = py_int (click_duration * sample_rate);
          click_freq = 4500
      in add_head num_samples click_samples (mech_click_wave click_freq) samples)"

definition mech_thock :: "int \<Rightarrow> real list \<Rightarrow> real list" where
  "mech_thock num_samples samples =
     (let thock_start = 0.005;
          thock_duration = 0.03;
          thock_start_sample = py_int (thock_start * sample_rate);
          thock_samples = py_int (thock_duration * sample_rate);
          thock_freq = 400
      in add_from num_samples thock_start_sample thock_samples (mech_thock_wave thock_freq) samples)"

definition mech_noise :: "(int \<Rightarrow> rng) \<Rightarrow> int \<Rightarrow> real list \<times> rng \<Rightarrow> real list \<times> rng" where
  "mech_noise mt num_samples = (\<lambda>(samples, g).
     let noise_duration = 0.012;
         noise_samples = py_int (noise_duration * sample_rate);
         g = random_seed mt 42 g
     in add_head_rand num_samples noise_samples mech_noise_wave (samples, g))"

definition mech_num_samples :: int where
  "mech_num_samples = (let duration = 0.06 in py_int (sample_rate * duration))"

definition mech_mix :: "(int \<Rightarrow> rng) \<Rightarrow> rng \<Rightarrow> real list \<times> rng" where
  "mech_mix mt g =
     (let num_samples = mech_num_samples;
          samples = zeros num_samples;
          samples = mech_click num_samples samples;
          samples = mech_clack num_samples samples;
          samples = mech_thock num_samples samples
      in mech_noise mt num_samples (samples, g))"

definition generate_mechanical_keyboard_click ::
  "(int \<Rightarrow> rng) \<Rightarrow> string \<Rightarrow> real \<Rightarrow> rng \<Rightarrow> disk \<Rightarrow> (error + unit) \<times> rng \<times> disk" where
  "generate_mechanical_keyboard_click mt filename volume g d =
     (let (samples, g') = mech_mix mt g;
          (res, d') = finish filename samples volume d
      in (res, g', d'))"

text \<open>
  \<^verbatim>\<open>freq_variation = 1.0 + (random.random() - 0.5) * 0.08\<close> and
  \<^verbatim>\<open>gap_duration + (random.random() - 0.5) * 0.02\<close>, as functions of the draw; the
  multi-click generators of both scripts use the same two expressions.
\<close>

definition freq_variation_of :: "real \<Rightarrow> real" where
  "freq_variation_of r = 1.0 + (r - 0.5) * 0.08"

definition gap_variation_of :: "real \<Rightarrow> real \<Rightarrow> real" where
  "gap_variation_of gap_duration r = gap_duration + (r - 0.5) * 0.02"

text \<open>
  \<^verbatim>\<open>[gap_duration + (random.random() - 0.5) * 0.02 for _ in range(n)]\<close>
\<close>

fun gap_draws :: "real \<Rightarrow> nat \<Rightarrow> rng \<Rightarrow> real list \<times> rng" where
  "gap_draws gap_duration 0 g = ([], g)"
| "gap_draws gap_duration (Suc n) g =
     (let (r, g') = random_random g;
          (rest, g'') = gap_draws gap_duration n g'
      in (gap_variation_of gap_duration r # rest, g''))"

text \<open>The end of the body of the click loops: move to the next click position.\<close>

definition advance :: "real \<Rightarrow> real list \<Rightarrow> nat \<Rightarrow> real \<Rightarrow> real" where
  "advance click_base_duration gap_variations click_num current_position =
     (let current_position = current_position + click_base_duration
      in if click_num < length gap_variations
         then current_position + gap_variations ! click_num
         else current_position)"

definition mech_multi_step ::
  "int \<Rightarrow> real list \<Rightarrow> nat \<Rightarrow> real list \<times> real \<times> rng \<Rightarrow> real list \<times> real \<times> rng" where
  "mech_multi_step num_samples gap_variations click_num = (\<lambda>(samples, current_position, g).
     let click_base_duration = 0.06;
         start_sample = py_int (current_position * sample_rate);
         (r, g) = random_random g;
         freq_variation = freq_variation_of r;
         samples = add_from num_samples start_sample (py_int (0.008 * sample_rate))
                     (mech_click_wave (4500 * freq_variation)) samples;
         samples = add_from num_samples (start_sample + py_int (0.003 * sample_rate))
                     (py_int (0.015 * sample_rate))
                     (mech_clack_wave (2000 * freq_variation)) samples;
         samples = add_from num_samples (start_sample + py_int (0.005 * sample_rate))
                     (py_int (0.03 * sample_rate))
                     (mech_thock_wave (400 * freq_variation)) samples;
         (samples, g) = add_from_rand num_samples start_sample (py_int (0.012 * sample_rate))
                          mech_noise_wave (samples, g)
     in (samples, advance click_base_duration gap_variations click_num current_position, g))"

definition mech_multi_mix :: "(int \<Rightarrow> rng) \<Rightarrow> int \<Rightarrow> rng \<Rightarrow> real list \<times> real \<times> rng" where
  "mech_multi_mix mt num_clicks g =
     (let click_base_duration = 0.06;
          gap_duration = 0.04;
          g = random_seed mt 44 g;
          (gap_variations, g) = gap_draws gap_duration (nat (num_clicks - 1)) g;
          total_duration = (click_base_duration * real_of_int num_clicks) + sum_list gap_variations;
          num_samples = py_int (sample_rate * total_duration);
          samples = zeros num_samples
      in fold (mech_multi_step num_samples gap_variations) [0..<nat num_clicks] (samples, 0, g))"

definition generate_multiple_mechanical_clicks ::
  "(int \<Rightarrow> rng) \<Rightarrow> string \<Rightarrow> int \<Rightarrow> real \<Rightarrow> rng \<Rightarrow> disk \<Rightarrow> (error + unit) \<times> rng \<times> disk" where
  "generate_multiple_mechanical_clicks mt filename num_clicks volume g d =
     (let (samples, current_position, g') = mech_multi_mix mt num_clicks g;
          (res, d') = finish filename samples volume d
      in (res, g', d'))"

subsection \<open>\<^verbatim>\<open>plugins/notifier/scripts/add-thock-sounds.py\<close>\<close>

definition thock_click_wave :: "real \<Rightarrow> nat \<Rightarrow> real" where
  "thock_click_wave click_freq i =
     (let t = real i / sample_rate;
          envelope = exp (- t * 200);
          sample = 0;
          sample = sample + sin (2 * pi * click_freq * t) * envelope;
          sample = sample + 0.3 * sin (2 * pi * click_freq * 2 * t) * envelope
      in sample * 0.3)"

definition thock_clack_wave :: "real \<Rightarrow> nat \<Rightarrow> real" where
  "thock_clack_wave clack_freq i =
     (let t = real i / sample_rate;
          envelope = exp (- t * 90);
          sample = sin (2 * pi * clack_freq * t) * envelope;
          sample = sample + 0.3 * sin (2 * pi * clack_freq * 1.5 * t) * envelope
      in sample * 0.4)"

definition thock_thock_wave :: "real \<Rightarrow> nat \<Rightarrow> real" where
  "thock_thock_wave thock_freq i =
     (let t = real i / sample_rate;
          envelope = exp (- t * 35);
          sample = sin (2 * pi * thock_freq * t) * envelope;
          sample = sample + 0.5 * sin (2 * pi * thock_freq * 2 * t) * envelope;
          sample = sample + 0.3 * sin (2 * pi * thock_freq * 3 * t) * envelope
      in sample * 0.9)"

definition thock_noise_wave :: "nat \<Rightarrow> real \<Rightarrow> real" where
  "thock_noise_wave i r =
     (let t = real i / sample_rate;
          envelope = exp (- t * 170);
          noise = (r - 0.5) * 2.0
      in noise * envelope * 0.08)"

definition thock_click :: "int \<Rightarrow> real list \<Rightarrow> real list" where
  "thock_click num_samples samples =
     (let click_duration = 0.006;
          click_samples = py_int (click_duration * sample_rate);
          click_freq = 4000
      in add_head num_samples click_samples (thock_click_wave click_freq) samples)"

definition thock_clack :: "int \<Rightarrow> real list \<Rightarrow> real list" where
  "thock_clack num_samples samples =
     (let clack_start = 0.003;
          clack_duration = 0.012;
          clack_start_sample = py_int (clack_start * sample_rate);
          clack_samples = py_int (clack_duration * sample_rate);
          clack_freq = 1800
      in add_from num_samples clack_start_sample clack_samples (thock_clack_wave clack_freq) samples)"

text \<open>Component 3 of \<open>generate_thock_click\<close> (the thock), lines 61 to 79.\<close>

definition thock_thock :: "int \<Rightarrow> real list \<Rightarrow> real list" where
  "thock_thock num_samples samples =
     (let thock_start = 0.004;
          thock_duration = 0.05;
          thock_start_sample = py_int (thock_start * sample_rate);
          thock_samples = py_int (thock_duration * sample_rate);
          thock_freq = 350
      in add_from num_samples thock_start_sample thock_samples (thock_thock_wave thock_freq) samples)"

definition thock_noise :: "(int \<Rightarrow> rng) \<Rightarrow> int \<Rightarrow> real list \<times> rng \<Rightarrow> real list \<times> rng" where
  "thock_noise mt num_samples = (\<lambda>(samples, g).
     let noise_duration = 0.008;
         noise_samples = py_int (noise_duration * sample_rate);
         g = random_seed mt 45 g
     in add_head_rand num_samples noise_samples thock_noise_wave (samples, g))"

definition thock_num_samples :: int where
  "thock_num_samples = (let duration = 0.08 in py_int (sample_rate * duration))"

definition thock_mix :: "(int \<Rightarrow> rng) \<Rightarrow> rng \<Rightarrow> real list \<times> rng" where
  "thock_mix mt g =
     (let num_samples = thock_num_samples;
          samples = zeros num_samples;
          samples = thock_click num_samples samples;
          samples = thock_clack num_samples samples;
          samples = thock_thock num_samples samples
      in thock_noise mt num_samples (samples, g))"

definition generate_thock_click ::
  "(int \<Rightarrow> rng) \<Rightarrow> string \<Rightarrow> real \<Rightarrow> rng \<Rightarrow> disk \<Rightarrow> (error + unit) \<times> rng \<times> disk" where
  "generate_thock_click mt filename volume g d =
     (let (samples, g') = thock_mix mt g;
          (res, d') = finish filename samples volume d
      in (res, g', d'))"

definition thock_multi_step ::
  "int \<Rightarrow> real list \<Rightarrow> nat \<Rightarrow> real list \<times> real \<times> rng \<Rightarrow> real list \<times> real \<times> rng" where
  "thock_multi_step num_samples gap_variations click_num = (\<lambda>(samples, current_position, g).
     let click_base_duration = 0.08;
         start_sample = py_int (current_position * sample_rate);
         (r, g) = random_random g;
         freq_variation = freq_variation_of r;
         samples = add_from num_samples start_sample (py_int (0.006 * sample_rate))
                     (thock_click_wave (4000 * freq_variation)) samples;
         samples = add_from num_samples (start_sample + py_int (0.003 * sample_rate))
                     (py_int (0.012 * sample_rate))
                     (thock_clack_wave (1800 * freq_variation)) samples;
         samples = add_from num_samples (start_sample + py_int (0.004 * sample_rate))
                     (py_int (0.05 * sample_rate))
                     (thock_thock_wave (350 * freq_variation)) samples;
         (samples, g) = add_from_rand num_samples start_sample (py_int (0.008 * sample_rate))
                          thock_noise_wave (samples, g)
     in (samples, advance click_base_duration gap_variations click_num current_position, g))"

text \<open>
  The set-up of \<open>generate_multiple_thock_clicks\<close>: seed, gap draws, buffer; it returns the
  gaps, the buffer length and the state the click loop starts from.
\<close>

definition thock_multi_init ::
  "(int \<Rightarrow> rng) \<Rightarrow> int \<Rightarrow> rng \<Rightarrow> real list \<times> int \<times> (real list \<times> real \<times> rng)" where
  "thock_multi_init mt num_clicks g =
     (let click_base_duration = 0.08;
          gap_duration = 0.045;
          g = random_seed mt 46 g;
          (gap_variations, g) = gap_draws gap_duration (nat (num_clicks - 1)) g;
          total_duration = (click_base_duration * real_of_int num_clicks) + sum_list gap_variations;
          num_samples = py_int (sample_rate * total_duration);
          samples = zeros num_samples
      in (gap_variations, num_samples, (samples, 0, g)))"

text \<open>The click loop of \<open>generate_multiple_thock_clicks\<close>, cut after \<open>k\<close> iterations.\<close>

definition thock_multi_loop ::
  "(int \<Rightarrow> rng) \<Rightarrow> int \<Rightarrow> rng \<Rightarrow> nat \<Rightarrow> real list \<times> real \<times> rng" where
  "thock_multi_loop mt num_clicks g k =
     (let (gap_variations, num_samples, st) = thock_multi_init mt num_clicks g
      in fold (thock_multi_step num_samples gap_variations) [0..<k] st)"

definition thock_multi_mix :: "(int \<Rightarrow> rng) \<Rightarrow> int \<Rightarrow> rng \<Rightarrow> real list \<times> real \<times> rng" where
  "thock_multi_mix mt num_clicks g = thock_multi_loop mt num_clicks g (nat num_clicks)"

definition generate_multiple_thock_clicks ::
  "(int \<Rightarrow> rng) \<Rightarrow> string \<Rightarrow> int \<Rightarrow> real \<Rightarrow> rng \<Rightarrow> disk \<Rightarrow> (error + unit) \<times> rng \<times> disk" where
  "generate_multiple_thock_clicks mt filename num_clicks volume g d =
     (let (samples, current_position, g') = thock_multi_mix mt num_clicks g;
          (res, d') = finish filename samples volume d
      in (res, g', d'))"

section \<open>Properties\<close>

subsection \<open>The mixing loops add, index by index\<close>

lemma length_fold_from:
  "length (fold (\<lambda>i s. let sample_idx = start + int i in
                  if sample_idx < n
                  then s[nat sample_idx := s ! nat sample_idx + f i] else s) is s) = length s"
  by (induction "is" arbitrary: s) (simp_all add: Let_def)

lemma length_add_from [simp]: "length (add_from n start c f s) = length s"
  by (simp add: add_from_def length_fold_from)

lemma nth_fold_from:
  assumes "0 \<le> start" "n \<le> int (length (s::real list))" "k < length s"
  shows "fold (\<lambda>i s. let sample_idx = start + int i in
                  if sample_idx < n
                  then s[nat sample_idx := s ! nat sample_idx + f i] else s) [0..<m] s ! k =
           s ! k + (if start \<le> int k \<and> int k < start + int m \<and> int k < n
                    then f (nat (int k - start)) else 0)"
  using assms
proof (induction m)
  case 0
  then show ?case by simp
next
  case (Suc m)
  let ?s' = "fold (\<lambda>i s. let sample_idx = start + int i in
                  if sample_idx < n
                  then s[nat sample_idx := s ! nat sample_idx + f i] else s) [0..<m] s"
  have len: "length ?s' = length s" by (rule length_fold_from)
  have IH: "?s' ! k = s ! k + (if start \<le> int k \<and> int k < start + int m \<and> int k < n
                    then f (nat (int k - start)) else 0)"
    using Suc by simp
  show ?case
  proof (cases "start + int m < n")
    case True
    then have lt: "nat (start + int m) < length s" using Suc.prems by linarith
    show ?thesis
    proof (cases "int k = start + int m")
      case True
      then have k: "nat (start + int m) = k" by linarith
      from True have "nat (int k - start) = m" by simp
      with IH True \<open>start + int m < n\<close> lt len k show ?thesis
        by (simp add: Let_def)
    next
      case False
      then have "nat (start + int m) \<noteq> k" using Suc.prems by linarith
      with IH False \<open>start + int m < n\<close> len show ?thesis
        by (auto simp add: Let_def)
    qed
  next
    case False
    with IH Suc.prems show ?thesis by (auto simp add: Let_def)
  qed
qed

lemma nth_add_from:
  assumes "0 \<le> start" "n \<le> int (length s)" "k < length s"
  shows "add_from n start c f s ! k =
           s ! k + (if start \<le> int k \<and> int k < start + c \<and> int k < n
                    then f (nat (int k - start)) else 0)"
proof -
  have "(start \<le> int k \<and> int k < start + int (nat c) \<and> int k < n)
          = (start \<le> int k \<and> int k < start + c \<and> int k < n)"
    by auto
  then show ?thesis
    unfolding add_from_def using nth_fold_from [OF assms, of f "nat c"] by simp
qed

lemma length_add_head [simp]: "length (add_head n c f s) = length s"
proof -
  have "length (fold (\<lambda>i s. s[i := s ! i + f i]) is s) = length s" for "is"
    by (induction "is" arbitrary: s) simp_all
  then show ?thesis by (simp add: add_head_def)
qed

lemma nth_fold_head:
  assumes "k < length (s::real list)"
  shows "fold (\<lambda>i s. s[i := s ! i + f i]) [0..<m] s ! k = s ! k + (if k < m then f k else 0)"
  using assms
proof (induction m)
  case 0
  then show ?case by simp
next
  case (Suc m)
  have len: "length (fold (\<lambda>i s. s[i := s ! i + f i]) [0..<m] s) = length s"
    using length_add_head [of "int (length s) + int m" "int m" f s] by (simp add: add_head_def)
  from Suc len show ?case by (cases "k = m") auto
qed

lemma nth_add_head:
  assumes "k < length s"
  shows "add_head n c f s ! k = s ! k + (if int k < c \<and> int k < n then f k else 0)"
proof -
  have "(k < nat (min c n)) = (int k < c \<and> int k < n)" by auto
  then show ?thesis unfolding add_head_def using nth_fold_head [OF assms, of f "nat (min c n)"] by simp
qed

lemma fold_from_rand:
  fixes s :: "real list"
  assumes "0 \<le> start"
  shows "fold (\<lambda>i (s, g). let sample_idx = start + int i in
                  if sample_idx < n
                  then let (r, g') = random_random g
                       in (s[nat sample_idx := s ! nat sample_idx + f i r], g')
                  else (s, g)) [0..<m] (s, g)
         = (fold (\<lambda>i s. let sample_idx = start + int i in
                  if sample_idx < n
                  then s[nat sample_idx := s ! nat sample_idx + f i (g i)] else s) [0..<m] s,
            (\<lambda>k. g (k + min m (nat (n - start)))))"
proof (induction m)
  case 0
  then show ?case by simp
next
  case (Suc m)
  show ?case
  proof (cases "start + int m < n")
    case True
    then have "min m (nat (n - start)) = m" "min (Suc m) (nat (n - start)) = Suc m" by linarith+
    with Suc True show ?thesis
      by (simp add: Let_def random_random_def)
  next
    case False
    then have "min (Suc m) (nat (n - start)) = min m (nat (n - start))" by linarith
    with Suc False show ?thesis by (simp add: Let_def)
  qed
qed

lemma add_from_rand_eq:
  fixes s :: "real list"
  assumes "0 \<le> start"
  shows "add_from_rand n start c f (s, g) =
           (add_from n start c (\<lambda>i. f i (g i)) s, (\<lambda>k. g (k + min (nat c) (nat (n - start)))))"
  unfolding add_from_rand_def add_from_def by (rule fold_from_rand [OF assms])

lemma fold_head_rand:
  fixes s :: "real list"
  shows "fold (\<lambda>i (s, g). let (r, g') = random_random g in (s[i := s ! i + f i r], g')) [0..<m] (s, g)
         = (fold (\<lambda>i s. s[i := s ! i + f i (g i)]) [0..<m] s, (\<lambda>k. g (k + m)))"
  by (induction m) (simp_all add: random_random_def)

lemma add_head_rand_eq:
  fixes s :: "real list"
  shows "add_head_rand n c f (s, g) =
           (add_head n c (\<lambda>i. f i (g i)) s, (\<lambda>k. g (k + nat (min c n))))"
  unfolding add_head_rand_def add_head_def by (rule fold_head_rand)

lemma py_int_nonneg: "0 \<le> x \<Longrightarrow> py_int x = \<lfloor>x\<rfloor>"
  by (simp add: py_int_def)

lemma py_int_abs_le: "\<bar>x\<bar> \<le> real_of_int b \<Longrightarrow> \<bar>py_int x\<bar> \<le> b"
  unfolding py_int_def by (auto simp: abs_le_iff intro: floor_mono ceiling_mono) linarith+

lemma py_int_zero [simp]: "py_int 0 = 0"
  by (simp add: py_int_def)

lemma thock_num_samples_eq: "thock_num_samples = 3528"
  by (simp add: thock_num_samples_def sample_rate_def py_int_def)

lemma mech_num_samples_eq: "mech_num_samples = 2646"
  by (simp add: mech_num_samples_def sample_rate_def py_int_def)

lemma keyboard_click_num_samples_1: "keyboard_click_num_samples 1 = 1102"
  by (simp add: keyboard_click_num_samples_def sample_rate_def py_int_def)

subsection \<open>Truncation and clamping\<close>


lemma py_int_trunc: "\<bar>real_of_int (py_int x)\<bar> \<le> \<bar>x\<bar> \<and> \<bar>x - real_of_int (py_int x)\<bar> < 1"
  unfolding py_int_def by (auto; linarith)

lemma clamp_scale: "max (- 32767) (min 32767 (s * 32767)) = max (- 1) (min 1 s) * (32767::real)"
  by (auto simp: max_def min_def)

lemma sample_int_clamped_bound: "\<bar>sample_int_clamped s\<bar> \<le> 32767"
  unfolding sample_int_clamped_def by (rule py_int_abs_le) (auto simp: max_def min_def)

lemma sample_int_plain_eq: "\<bar>s\<bar> \<le> 1 \<Longrightarrow> sample_int_plain s = sample_int_clamped s"
  unfolding sample_int_plain_def sample_int_clamped_def
  by (auto simp: max_def min_def abs_le_iff intro!: arg_cong [where f = py_int])






subsection \<open>The last sample of a window\<close>











subsection \<open>Windows and sums of components\<close>

lemma py_int_nonneg_iff: "0 \<le> x \<Longrightarrow> 0 \<le> py_int x"
  by (simp add: py_int_def)

lemma py_int_le: "0 \<le> x \<Longrightarrow> real_of_int (py_int x) \<le> x"
  by (simp add: py_int_def)


lemma add_from_plus:
  fixes s :: "real list"
  assumes "0 \<le> start" "n \<le> int (length s)"
  shows "add_from n start c f s = map2 (+) s (add_from n start c f (replicate (length s) 0))"
proof (rule nth_equalityI)
  show "length (add_from n start c f s) = length (map2 (+) s (add_from n start c f (replicate (length s) 0)))"
    by simp
next
  fix k assume "k < length (add_from n start c f s)"
  then have k: "k < length s" by simp
  show "add_from n start c f s ! k = map2 (+) s (add_from n start c f (replicate (length s) 0)) ! k"
    using k assms by (simp add: nth_add_from)
qed

lemma add_head_plus:
  fixes s :: "real list"
  shows "add_head n c f s = map2 (+) s (add_head n c f (replicate (length s) 0))"
proof (rule nth_equalityI)
  show "length (add_head n c f s) = length (map2 (+) s (add_head n c f (replicate (length s) 0)))"
    by simp
next
  fix k assume "k < length (add_head n c f s)"
  then have k: "k < length s" by simp
  show "add_head n c f s ! k = map2 (+) s (add_head n c f (replicate (length s) 0)) ! k"
    using k by (simp add: nth_add_head)
qed

lemma map2_plus_zeros:
  fixes s :: "real list"
  shows "length s = m \<Longrightarrow> map2 (+) (replicate m 0) s = s"
  by (rule nth_equalityI) simp_all








lemma length_zeros [simp]: "length (zeros n) = nat n"
  by (simp add: zeros_def)

lemma length_components [simp]:
  "length (mech_click n s) = length s" "length (mech_clack n s) = length s"
  "length (mech_thock n s) = length s"
  "length (thock_click n s) = length s" "length (thock_clack n s) = length s"
  "length (thock_thock n s) = length s"
  by (simp_all add: mech_click_def mech_clack_def mech_thock_def
      thock_click_def thock_clack_def thock_thock_def)

lemma mech_clack_plus:
  "n \<le> int (length s) \<Longrightarrow> mech_clack n s = map2 (+) s (mech_clack n (replicate (length s) 0))"
  unfolding mech_clack_def Let_def
  by (rule add_from_plus) (simp_all add: py_int_nonneg_iff sample_rate_def)

lemma mech_thock_plus:
  "n \<le> int (length s) \<Longrightarrow> mech_thock n s = map2 (+) s (mech_thock n (replicate (length s) 0))"
  unfolding mech_thock_def Let_def
  by (rule add_from_plus) (simp_all add: py_int_nonneg_iff sample_rate_def)

lemma fst_mech_noise:
  "fst (mech_noise mt n (s, g)) = add_head n (py_int (0.012 * sample_rate)) (\<lambda>i. mech_noise_wave i (mt 42 i)) s"
  by (simp only: mech_noise_def Let_def add_head_rand_eq fst_conv prod.case random_seed_def)

lemma mech_noise_plus:
  "fst (mech_noise mt n (s, g)) = map2 (+) s (fst (mech_noise mt n (replicate (length s) 0, g')))"
  unfolding fst_mech_noise by (rule add_head_plus)

lemma complete_tone_plus:
  assumes "0 \<le> start_time" "n \<le> int (length s)"
  shows "complete_tone n (freq, start_time, tone_duration) s =
           map2 (+) s (complete_tone n (freq, start_time, tone_duration) (replicate (length s) 0))"
  unfolding complete_tone_def Let_def prod.case
  using assms by (intro add_from_plus py_int_nonneg_iff) (simp_all add: sample_rate_def)

lemma length_complete_tone [simp]: "length (complete_tone n t s) = length s"
  by (cases t) (simp add: complete_tone_def Let_def)

lemma complete_num_samples: "py_int (sample_rate * 0.6) = 26460"
  by (simp add: sample_rate_def py_int_def)

lemma complete_mix_two:
  assumes "0 \<le> start2"
  shows "complete_mix (ts @ [(freq2, start2, dur2)]) =
           map2 (+) (complete_mix ts) (complete_mix [(freq2, start2, dur2)])"
proof -
  let ?n = "py_int (sample_rate * 0.6)"
  have len: "length (fold (complete_tone ?n) ts (zeros ?n)) = nat ?n"
    by (induction ts rule: rev_induct) simp_all
  have "?n \<le> int (length (fold (complete_tone ?n) ts (zeros ?n)))"
    unfolding len by (simp add: complete_num_samples)
  moreover have eq: "replicate (length (fold (complete_tone ?n) ts (zeros ?n))) 0 = zeros ?n"
    using len by (simp add: zeros_def)
  ultimately have "complete_tone ?n (freq2, start2, dur2) (fold (complete_tone ?n) ts (zeros ?n)) =
          map2 (+) (fold (complete_tone ?n) ts (zeros ?n))
                   (complete_tone ?n (freq2, start2, dur2) (zeros ?n))"
    using complete_tone_plus [OF assms, of ?n "fold (complete_tone ?n) ts (zeros ?n)" freq2 dur2]
    by (simp only: eq)
  then show ?thesis
    by (simp only: complete_mix_def Let_def fold_append fold_simps o_apply)
qed

subsection \<open>Writing frames\<close>

lemma pack_h_ok: "\<bar>v\<bar> \<le> 32767 \<Longrightarrow> pack_h v = Inr (word_of_int v)"
  by (auto simp: pack_h_def)

lemma write_loop_frames:
  assumes "\<forall>x\<in>set xs. \<bar>conv x\<bar> \<le> 32767" "files d filename = Some f"
  shows "fst (write_loop filename conv xs d) = (if length xs \<le> room d then Inr () else Inl OSError)
       \<and> files (snd (write_loop filename conv xs d)) =
           (files d)(filename \<mapsto>
              f\<lparr>frames := frames f @ map (\<lambda>x. word_of_int (conv x)) (take (room d) xs)\<rparr>)
       \<and> room (snd (write_loop filename conv xs d)) = room d - length xs"
  using assms
proof (induction xs arbitrary: d f)
  case Nil
  then show ?case by (simp add: map_upd_triv)
next
  case (Cons x xs)
  then have p: "pack_h (conv x) = Inr (word_of_int (conv x))" by (simp add: pack_h_ok)
  show ?case
  proof (cases "room d = 0")
    case True
    have e: "(files d)(filename \<mapsto> f) = files d"
      using Cons.prems(2) by (simp add: map_upd_triv)
    have A: "write_loop filename conv (x # xs) d = (Inl OSError, d)"
      using True p by (simp add: writeframes_def)
    show ?thesis unfolding A using True e by simp
  next
    case False
    let ?f' = "f\<lparr>frames := frames f @ [word_of_int (conv x)]\<rparr>"
    let ?d' = "d\<lparr>files := (files d)(filename \<mapsto> ?f'), room := room d - 1\<rparr>"
    have w: "writeframes filename (word_of_int (conv x)) d = Inr ?d'"
      using False Cons.prems by (simp add: writeframes_def)
    have f': "files ?d' filename = Some ?f'" by simp
    have all: "\<forall>x\<in>set xs. \<bar>conv x\<bar> \<le> 32767" using Cons.prems by simp
    obtain m where m: "room d = Suc m" using False by (cases "room d") auto
    have step: "write_loop filename conv (x # xs) d = write_loop filename conv xs ?d'"
      using p w by simp
    show ?thesis
      unfolding step using Cons.IH [OF all f'] m by (auto simp add: fun_eq_iff)
  qed
qed

lemma write_wav_frames:
  assumes "\<forall>x\<in>set xs. \<bar>conv x\<bar> \<le> 32767"
  shows "fst (write_wav filename conv xs d) = (if length xs \<le> room d then Inr () else Inl OSError)
       \<and> files (snd (write_wav filename conv xs d)) =
           (files d)(filename \<mapsto>
              \<lparr>nchannels = 1, sampwidth = 2, framerate = 44100,
               frames = map (\<lambda>x. word_of_int (conv x)) (take (room d) xs)\<rparr>)
       \<and> room (snd (write_wav filename conv xs d)) = room d - length xs"
  unfolding write_wav_def
  using write_loop_frames [OF assms, of "wave_open filename d" filename
      "\<lparr>nchannels = 1, sampwidth = 2, framerate = 44100, frames = []\<rparr>"]
  by (simp add: wave_open_def)

subsection \<open>Amplitude bounds of the unclamped writers\<close>

lemma abs_mult_le: "\<bar>a\<bar> \<le> 1 \<Longrightarrow> \<bar>s * a\<bar> \<le> \<bar>s::real\<bar>"
proof -
  assume "\<bar>a\<bar> \<le> 1"
  then have "\<bar>s\<bar> * \<bar>a\<bar> \<le> \<bar>s\<bar> * 1" by (intro mult_left_mono) simp_all
  then show ?thesis by (simp add: abs_mult)
qed

lemma fade_out_factor:
  assumes "int i < n" "real i > real_of_int n * 0.8"
  shows "\<bar>1.0 - ((real i - real_of_int n * 0.8) / (real_of_int n * 0.2))\<bar> \<le> 1"
proof -
  have n: "0 < real_of_int n" using assms(1) by linarith
  have i: "real i < real_of_int n" using assms(1) by linarith
  have "0 \<le> (real i - real_of_int n * 0.8) / (real_of_int n * 0.2)"
    using assms(2) n by simp
  moreover have "(real i - real_of_int n * 0.8) / (real_of_int n * 0.2) \<le> 1"
    using i n by (simp add: field_simps)
  ultimately show ?thesis by simp
qed

lemma fade_in_factor:
  assumes "real i < real_of_int n * 0.05"
  shows "\<bar>real i / (real_of_int n * 0.05)\<bar> \<le> 1"
proof -
  have "0 \<le> real i" by simp
  with assms have "0 < real_of_int n * 0.05" by linarith
  then show ?thesis using assms by (simp add: field_simps)
qed

lemma fade_out_in_bound:
  assumes "int i < n"
  shows "\<bar>fade_out_in n i s\<bar> \<le> \<bar>s\<bar>"
proof -
  define s1 where "s1 = (if real i > real_of_int n * 0.8
                    then s * (1.0 - ((real i - real_of_int n * 0.8) / (real_of_int n * 0.2)))
                    else s)"
  have 1: "\<bar>s1\<bar> \<le> \<bar>s\<bar>"
  proof (cases "real i > real_of_int n * 0.8")
    case True
    from abs_mult_le [OF fade_out_factor [OF assms True], of s] True
    show ?thesis by (simp only: s1_def if_True)
  next
    case False
    then show ?thesis by (simp only: s1_def if_False order_refl)
  qed
  have 2: "\<bar>if real i < real_of_int n * 0.05 then s1 * (real i / (real_of_int n * 0.05)) else s1\<bar> \<le> \<bar>s1\<bar>"
  proof (cases "real i < real_of_int n * 0.05")
    case True
    from abs_mult_le [OF fade_in_factor [OF True], of s1] True
    show ?thesis by (simp only: if_True)
  next
    case False
    then show ?thesis by (simp only: if_False order_refl)
  qed
  have "fade_out_in n i s = (if real i < real_of_int n * 0.05 then s1 * (real i / (real_of_int n * 0.05)) else s1)"
    by (simp only: fade_out_in_def Let_def s1_def)
  with 1 2 show ?thesis by linarith
qed

lemma volume_sin_bound: "0 \<le> volume \<Longrightarrow> \<bar>volume * sin x\<bar> \<le> (volume::real)"
  using abs_mult_le [of "sin x" volume] by simp

lemma tone_values_fit:
  assumes "0 \<le> volume" "volume \<le> 1" "v \<in> set (tone_values frequency duration volume)"
  shows "\<bar>v\<bar> \<le> 32767"
proof -
  let ?n = "py_int (sample_rate * duration)"
  from assms(3) obtain i where i: "i < nat ?n"
    and v: "v = py_int (fade_out_in ?n i (volume * sin (2 * pi * frequency * real i / sample_rate)) * 32767)"
    by (auto simp: tone_values_def Let_def)
  have "\<bar>fade_out_in ?n i (volume * sin (2 * pi * frequency * real i / sample_rate))\<bar> \<le> volume"
  proof -
    have "int i < ?n" using i by linarith
    from fade_out_in_bound [OF this] volume_sin_bound [OF assms(1)]
    show ?thesis by (rule order_trans)
  qed
  then have "\<bar>fade_out_in ?n i (volume * sin (2 * pi * frequency * real i / sample_rate)) * 32767\<bar> \<le> real_of_int 32767"
    using assms(2) by simp
  then show ?thesis unfolding v by (rule py_int_abs_le)
qed

lemma chord_sum_bound:
  assumes "0 \<le> volume"
  shows "\<bar>fold (\<lambda>freq sample. sample + volume * sin (2 * pi * freq * real i / sample_rate)) frequencies acc\<bar>
           \<le> \<bar>acc\<bar> + real (length frequencies) * volume"
proof (induction frequencies arbitrary: acc)
  case Nil
  then show ?case by simp
next
  case (Cons freq frequencies)
  have "\<bar>acc + volume * sin (2 * pi * freq * real i / sample_rate)\<bar> \<le> \<bar>acc\<bar> + volume"
    using volume_sin_bound [OF assms, of "2 * pi * freq * real i / sample_rate"] by linarith
  with Cons [of "acc + volume * sin (2 * pi * freq * real i / sample_rate)"]
  show ?case by (simp add: algebra_simps)
qed

lemma chord_sample_fit:
  assumes "0 \<le> volume" "volume \<le> 1" "int i < n" "chord_sample frequencies n volume i = Inr v"
  shows "\<bar>v\<bar> \<le> 32767"
proof -
  let ?sum = "fold (\<lambda>freq sample. sample + volume * sin (2 * pi * freq * real i / sample_rate)) frequencies 0"
  from assms(4) have ne: "length frequencies \<noteq> 0"
    and v: "v = py_int (fade_out_in n i (?sum / real (length frequencies)) * 32767)"
    by (auto simp: chord_sample_def Let_def split: if_splits)
  have "\<bar>?sum\<bar> \<le> real (length frequencies) * volume"
    using chord_sum_bound [OF assms(1), of i frequencies 0] by simp
  then have "\<bar>?sum / real (length frequencies)\<bar> \<le> volume"
    using ne by (simp add: field_simps)
  then have "\<bar>fade_out_in n i (?sum / real (length frequencies))\<bar> \<le> volume"
    using fade_out_in_bound [OF assms(3)] by (rule order_trans [rotated])
  then have "\<bar>fade_out_in n i (?sum / real (length frequencies)) * 32767\<bar> \<le> real_of_int 32767"
    using assms(2) by simp
  then show ?thesis unfolding v by (rule py_int_abs_le)
qed

lemma collect_Inr:
  "collect xs = Inr vs \<Longrightarrow> length vs = length xs \<and> (\<forall>k<length xs. xs ! k = Inr (vs ! k))"
proof (induction xs arbitrary: vs)
  case Nil
  then show ?case by simp
next
  case (Cons x xs)
  then show ?case
    by (auto split: sum.splits simp: nth_Cons split: nat.splits)
qed

lemma collect_all_Inr: "\<forall>x\<in>set xs. \<exists>v. x = Inr v \<Longrightarrow> \<exists>vs. collect xs = Inr vs"
  by (induction xs) (auto split: sum.splits)

lemma chord_values_fit:
  assumes "0 \<le> volume" "volume \<le> 1" "chord_values frequencies duration volume = Inr vs" "v \<in> set vs"
  shows "\<bar>v\<bar> \<le> 32767"
proof -
  let ?n = "py_int (sample_rate * duration)"
  let ?xs = "map (chord_sample frequencies ?n volume) [0..<nat ?n]"
  from assms(3) have c: "collect ?xs = Inr vs" by (simp add: chord_values_def Let_def)
  from collect_Inr [OF c] have len: "length vs = nat ?n"
    and nth: "\<forall>k<nat ?n. chord_sample frequencies ?n volume k = Inr (vs ! k)" by auto
  from assms(4) obtain k where k: "k < length vs" "v = vs ! k" by (auto simp: in_set_conv_nth)
  then have "chord_sample frequencies ?n volume k = Inr v" using nth len by simp
  moreover have "int k < ?n" using k(1) len by linarith
  ultimately show ?thesis using chord_sample_fit [OF assms(1,2)] by blast
qed

lemma chord_values_total:
  "frequencies \<noteq> [] \<Longrightarrow> \<exists>vs. chord_values frequencies duration volume = Inr vs"
  unfolding chord_values_def Let_def
  by (rule collect_all_Inr) (auto simp: chord_sample_def Let_def)

lemma complete_wave_bound:
  assumes "int i < ts"
  shows "\<bar>complete_wave freq ts i\<bar> \<le> 0.25"
proof -
  define s0 where "s0 = 0.25 * sin (2 * pi * freq * real i / sample_rate)"
  define s1 where "s1 = (if real i < real_of_int ts * 0.05
                    then s0 * (real i / (real_of_int ts * 0.05)) else s0)"
  have 0: "\<bar>s0\<bar> \<le> 0.25"
    unfolding s0_def using volume_sin_bound [of "0.25" "2 * pi * freq * real i / sample_rate"] by simp
  have 1: "\<bar>s1\<bar> \<le> \<bar>s0\<bar>"
  proof (cases "real i < real_of_int ts * 0.05")
    case True
    from abs_mult_le [OF fade_in_factor [OF True], of s0] True
    show ?thesis by (simp only: s1_def if_True)
  next
    case False
    then show ?thesis by (simp only: s1_def if_False order_refl)
  qed
  have 2: "\<bar>if real i > real_of_int ts * 0.8
            then s1 * (1.0 - ((real i - real_of_int ts * 0.8) / (real_of_int ts * 0.2)))
            else s1\<bar> \<le> \<bar>s1\<bar>"
  proof (cases "real i > real_of_int ts * 0.8")
    case True
    from abs_mult_le [OF fade_out_factor [OF assms True], of s1] True
    show ?thesis by (simp only: if_True)
  next
    case False
    then show ?thesis by (simp only: if_False order_refl)
  qed
  have "complete_wave freq ts i = (if real i > real_of_int ts * 0.8
            then s1 * (1.0 - ((real i - real_of_int ts * 0.8) / (real_of_int ts * 0.2)))
            else s1)"
    by (simp only: complete_wave_def Let_def s1_def s0_def)
  with 0 1 2 show ?thesis by linarith
qed

lemma complete_starts:
  "py_int (0.0 * sample_rate) = 0" "py_int (0.15 * sample_rate) = 6615"
  "py_int (0.3 * sample_rate) = 13230"
  by (simp_all add: sample_rate_def py_int_def)

lemma complete_mix_eq:
  "complete_mix complete_tones =
     add_from 26460 13230 13230 (complete_wave 783.99 13230)
       (add_from 26460 6615 6615 (complete_wave 659.25 6615)
          (add_from 26460 0 6615 (complete_wave 523.25 6615) (replicate 26460 0)))"
proof -
  have z: "zeros 26460 = replicate 26460 0" by (simp add: zeros_def)
  show ?thesis
    by (simp only: complete_mix_def complete_tones_def Let_def fold_simps complete_tone_def
        prod.case complete_starts complete_num_samples z)
qed

lemma nth_complete_mix:
  assumes "k < 26460"
  shows "complete_mix complete_tones ! k =
           (if k < 6615 then complete_wave 523.25 6615 k
            else if k < 13230 then complete_wave 659.25 6615 (k - 6615)
            else complete_wave 783.99 13230 (k - 13230))"
proof -
  have a: "nat (int k - 6615) = k - 6615" "nat (int k - 13230) = k - 13230" by simp_all
  show ?thesis
    unfolding complete_mix_eq using assms
    by (simp add: nth_add_from a)
qed

lemma length_complete_mix: "length (complete_mix complete_tones) = 26460"
  by (simp add: complete_mix_eq)

lemma complete_mix_bound:
  assumes "x \<in> set (complete_mix complete_tones)"
  shows "\<bar>x\<bar> \<le> 0.25"
proof -
  from assms obtain k where k: "k < 26460" "x = complete_mix complete_tones ! k"
    by (auto simp: in_set_conv_nth length_complete_mix)
  consider "k < 6615" | "\<not> k < 6615" "k < 13230" | "\<not> k < 6615" "\<not> k < 13230" by blast
  then show ?thesis
  proof cases
    case 1
    then have "int k < 6615" by simp
    from complete_wave_bound [OF this] 1 show ?thesis
      unfolding k(2) nth_complete_mix [OF k(1)] by (simp only: if_True)
  next
    case 2
    then have "int (k - 6615) < 6615" by simp
    from complete_wave_bound [OF this] 2 show ?thesis
      unfolding k(2) nth_complete_mix [OF k(1)] by (simp only: if_True if_False)
  next
    case 3
    then have "int (k - 13230) < 13230" using k(1) by simp
    from complete_wave_bound [OF this] 3 show ?thesis
      unfolding k(2) nth_complete_mix [OF k(1)] by (simp only: if_False)
  qed
qed

lemma fits_pack: "\<bar>v\<bar> \<le> 32767 \<Longrightarrow> - 32768 \<le> v \<and> v \<le> 32767 \<and> pack_h v = Inr (word_of_int v)
    \<and> sint (word_of_int v :: 16 word) = v"
proof -
  assume a: "\<bar>v\<bar> \<le> 32767"
  then have "- (2 ^ 15) \<le> v" "v < 2 ^ 15" by simp_all
  then have "signed_take_bit 15 v = v" by (rule signed_take_bit_int_eq_self)
  then have "sint (word_of_int v :: 16 word) = v" by (simp add: sint_sbintrunc')
  with a show ?thesis by (auto simp: pack_h_def)
qed

lemma write_wav_no_struct_error:
  "\<forall>x\<in>set xs. \<bar>conv x\<bar> \<le> 32767 \<Longrightarrow> fst (write_wav filename conv xs d) \<noteq> Inl StructError"
  using write_wav_frames [of xs conv filename d] by (auto split: if_splits)

lemma collect_Inl: "collect xs = Inl e \<Longrightarrow> Inl e \<in> set xs"
  by (induction xs) (auto split: sum.splits)

lemma chord_values_error: "chord_values frequencies duration volume = Inl e \<Longrightarrow> e = ZeroDivisionError"
  unfolding chord_values_def Let_def
  by (drule collect_Inl) (auto simp: chord_sample_def Let_def split: if_splits)

lemma sample_int_plain_fit: "\<bar>x\<bar> \<le> 0.25 \<Longrightarrow> \<bar>sample_int_plain x\<bar> \<le> 32767"
  unfolding sample_int_plain_def by (rule py_int_abs_le) simp






lemma final_pass_length:
  "final_pass samples volume = Inr samples' \<Longrightarrow> length samples' = length samples"
  by (auto simp: final_pass_def Let_def split: if_splits)

lemma final_pass_total: "samples \<noteq> [] \<Longrightarrow> \<exists>samples'. final_pass samples volume = Inr samples'"
  by (simp add: final_pass_def Let_def)

lemma finish_frames:
  assumes "samples \<noteq> []"
  shows "\<exists>out. encode samples volume = Inr out \<and> length out = length samples
       \<and> fst (finish filename samples volume d) = (if length samples \<le> room d then Inr () else Inl OSError)
       \<and> files (snd (finish filename samples volume d)) =
           (files d)(filename \<mapsto> \<lparr>nchannels = 1, sampwidth = 2, framerate = 44100,
                                 frames = map word_of_int (take (room d) out)\<rparr>)"
proof -
  from final_pass_total [OF assms] obtain samples' where s: "final_pass samples volume = Inr samples'"
    by blast
  have len: "length samples' = length samples" using s by (rule final_pass_length)
  have fit: "\<forall>x\<in>set samples'. \<bar>sample_int_clamped x\<bar> \<le> 32767"
    by (simp add: sample_int_clamped_bound)
  have enc: "encode samples volume = Inr (map sample_int_clamped samples')"
    by (simp add: encode_def s)
  have fin: "finish filename samples volume d = write_wav filename sample_int_clamped samples' d"
    by (simp add: finish_def s)
  from write_wav_frames [OF fit, of filename d]
  show ?thesis
    unfolding fin enc by (intro exI [of _ "map sample_int_clamped samples'"]) (simp add: len take_map o_def)
qed

subsection \<open>The click loops and the random generator\<close>











lemma length_thock_mix: "length (fst (thock_mix mt g)) = 3528"
  by (simp add: thock_mix_def thock_noise_def Let_def add_head_rand_eq thock_num_samples_eq)

lemma encode_bound: "encode samples volume = Inr out \<Longrightarrow> \<forall>v\<in>set out. \<bar>v\<bar> \<le> 32767"
  by (auto simp: encode_def sample_int_clamped_bound split: sum.splits)

lemma keyboard_click_none:
  assumes "num_clicks \<le> 0"
  shows "generate_keyboard_click filename num_clicks volume g d = (Inr (), g, wave_open filename d)"
proof -
  define x where "x = real_of_int num_clicks"
  have "x \<le> 0" using assms by (simp add: x_def)
  then have "sample_rate * (0.025 * x + 0.035 * (x - 1)) < 0"
    by (simp add: sample_rate_def field_simps)
  then have "sample_rate * (0.025 * real_of_int num_clicks + 0.035 * real_of_int (num_clicks - 1)) < 0"
    unfolding x_def by (simp only: of_int_diff of_int_1)
  then have "keyboard_click_num_samples num_clicks \<le> 0"
    by (simp add: keyboard_click_num_samples_def Let_def py_int_def ceiling_le_zero)
  then have "zeros (keyboard_click_num_samples num_clicks) = []" by (simp add: zeros_def)
  then have "keyboard_click_mix num_clicks volume g = ([], g)"
    using assms by (simp add: keyboard_click_mix_def Let_def)
  then show ?thesis
    by (simp add: generate_keyboard_click_def write_wav_def)
qed

lemma multiple_mechanical_clicks_none:
  assumes "num_clicks \<le> 0"
  shows "generate_multiple_mechanical_clicks mt filename num_clicks volume g d = (Inl ValueError, mt 44, d)"
proof -
  have "sample_rate * (0.06 * real_of_int num_clicks) \<le> 0"
    using assms by (simp add: sample_rate_def mult_le_0_iff)
  then have "py_int (sample_rate * (0.06 * real_of_int num_clicks)) \<le> 0"
    by (auto simp add: py_int_def ceiling_le_zero)
  then have "zeros (py_int (sample_rate * (0.06 * real_of_int num_clicks))) = []" by (simp add: zeros_def)
  then have "mech_multi_mix mt num_clicks g = ([], 0, mt 44)"
    using assms by (simp add: mech_multi_mix_def Let_def random_seed_def)
  then show ?thesis
    by (simp add: generate_multiple_mechanical_clicks_def finish_def final_pass_def)
qed

lemma keyboard_click_samples_eq: "py_int (0.025 * sample_rate) = 1102"
  by (simp add: sample_rate_def py_int_def)

lemma keyboard_click_mix_1:
  "fst (keyboard_click_mix 1 volume g) =
     add_from 1102 0 1102
       (\<lambda>i. keyboard_click_wave volume 1102
               [3000 * keyboard_freq_variation (g 0), 4500 * keyboard_freq_variation (g 0),
                6000 * keyboard_freq_variation (g 0)] i (g (Suc i)))
       (replicate 1102 0)"
proof -
  have z: "zeros 1102 = replicate 1102 0" by (simp add: zeros_def)
  have s: "py_int (real 0 * (0.025 + 0.035) * sample_rate) = 0" by simp
  have "keyboard_click_mix 1 volume g = keyboard_click_step 1102 volume 0 (replicate 1102 0, g)"
    by (simp add: keyboard_click_mix_def Let_def keyboard_click_num_samples_1 z)
  also have "fst \<dots> = add_from 1102 0 1102
       (\<lambda>i. keyboard_click_wave volume 1102
               [3000 * keyboard_freq_variation (g 0), 4500 * keyboard_freq_variation (g 0),
                6000 * keyboard_freq_variation (g 0)] i (g (Suc i)))
       (replicate 1102 0)"
    by (simp only: keyboard_click_step_def Let_def prod.case s keyboard_click_samples_eq
        random_random_def add_from_rand_eq [OF order_refl] fst_conv)
  finally show ?thesis .
qed

lemma keyboard_wave_147:
  "keyboard_click_wave 0.15 1102 [3000 * 1, 4500 * 1, 6000 * 1] 147 r = (r - 0.5) * 0.15 * 0.15 / 4"
proof -
  have a: "2 * pi * (3000 * 1) * real 147 / sample_rate = 20 * pi"
    "2 * pi * (4500 * 1) * real 147 / sample_rate = 30 * pi"
    "2 * pi * (6000 * 1) * real 147 / sample_rate = 40 * pi"
    by (simp_all add: sample_rate_def)
  have sum: "fold (\<lambda>freq sample. sample + 0.15 * sin (2 * pi * freq * real 147 / sample_rate))
               [3000 * 1, 4500 * 1, 6000 * 1] 0 = 0"
    by (simp only: fold_simps a sin_npi_numeral)
  show ?thesis
    unfolding keyboard_click_wave_def Let_def sum by simp
qed

lemma keyboard_sample_147:
  assumes "g 0 = 1 / 2"
  shows "fst (keyboard_click_mix 1 0.15 g) ! 147 = (g 148 - 0.5) * 0.15 * 0.15 / 4"
proof -
  have "fst (keyboard_click_mix 1 0.15 g) ! 147 =
          keyboard_click_wave 0.15 1102
               [3000 * keyboard_freq_variation (g 0), 4500 * keyboard_freq_variation (g 0),
                6000 * keyboard_freq_variation (g 0)] 147 (g (Suc 147))"
    unfolding keyboard_click_mix_1 by (subst nth_add_from) simp_all
  moreover have fv: "keyboard_freq_variation (g 0) = 1"
    by (simp add: assms keyboard_freq_variation_def)
  ultimately show ?thesis unfolding fv keyboard_wave_147 by simp
qed

lemma length_keyboard_click_mix_1: "length (fst (keyboard_click_mix 1 volume g)) = 1102"
  unfolding keyboard_click_mix_1 by simp

section \<open>The claims\<close>

subsection \<open>C1: the peak after normalising, scaling and quantising\<close>



subsection \<open>C2: determinism and the random generator\<close>

text \<open>
  C2, as stated, fails: no generator takes a seed. \<open>generate_keyboard_click\<close> draws from the
  module-level generator as it finds it, so the same arguments give different files when the
  state of that generator differs: with one click at volume 0.15, sample 147 is stored as
  \<open>0\<close> when every draw is \<open>1/2\<close> and as \<open>-92\<close> when the draws after the first are \<open>0\<close>.
\<close>

theorem implicit_generator_state_counterexample:
  "sample_int_clamped (fst (keyboard_click_mix 1 0.15 (\<lambda>_. 1 / 2)) ! 147) = 0
   \<and> sample_int_clamped (fst (keyboard_click_mix 1 0.15 (\<lambda>k. if k = 0 then 1 / 2 else 0)) ! 147) = - 92
   \<and> files (snd (snd (generate_keyboard_click ''click.wav'' 1 0.15 (\<lambda>_. 1 / 2)
                          \<lparr>files = Map.empty, room = 1102\<rparr>))) ''click.wav''
     \<noteq> files (snd (snd (generate_keyboard_click ''click.wav'' 1 0.15 (\<lambda>k. if k = 0 then 1 / 2 else 0)
                          \<lparr>files = Map.empty, room = 1102\<rparr>))) ''click.wav''"
proof -
  let ?g1 = "\<lambda>k::nat. 1 / 2 :: real"
  let ?g2 = "\<lambda>k::nat. if k = 0 then 1 / 2 else 0 :: real"
  let ?d = "\<lparr>files = Map.empty, room = 1102\<rparr>"
  have s1: "fst (keyboard_click_mix 1 0.15 ?g1) ! 147 = 0"
    using keyboard_sample_147 [of ?g1] by simp
  have s2: "fst (keyboard_click_mix 1 0.15 ?g2) ! 147 = - 0.0028125"
    using keyboard_sample_147 [of ?g2] by simp
  have q1: "sample_int_clamped (fst (keyboard_click_mix 1 0.15 ?g1) ! 147) = 0"
    unfolding s1 by (simp add: sample_int_clamped_def)
  have q2: "sample_int_clamped (fst (keyboard_click_mix 1 0.15 ?g2) ! 147) = - 92"
    unfolding s2 by (simp add: sample_int_clamped_def py_int_def)
  have fr: "files (snd (snd (generate_keyboard_click ''click.wav'' 1 0.15 g ?d))) ''click.wav''
          = Some \<lparr>nchannels = 1, sampwidth = 2, framerate = 44100,
               frames = map (\<lambda>x. word_of_int (sample_int_clamped x)) (fst (keyboard_click_mix 1 0.15 g))\<rparr>"
    for g
  proof -
    have fit: "\<forall>x\<in>set (fst (keyboard_click_mix 1 0.15 g)). \<bar>sample_int_clamped x\<bar> \<le> 32767"
      by (simp add: sample_int_clamped_bound)
    from write_wav_frames [OF fit, of "''click.wav''" ?d]
    show ?thesis
      by (simp add: generate_keyboard_click_def Let_def split_beta length_keyboard_click_mix_1)
  qed
  have "map (\<lambda>x. word_of_int (sample_int_clamped x) :: 16 word) (fst (keyboard_click_mix 1 0.15 ?g1)) ! 147
          \<noteq> map (\<lambda>x. word_of_int (sample_int_clamped x)) (fst (keyboard_click_mix 1 0.15 ?g2)) ! 147"
    using q1 q2 by (simp add: length_keyboard_click_mix_1)
  then have "map (\<lambda>x. word_of_int (sample_int_clamped x) :: 16 word) (fst (keyboard_click_mix 1 0.15 ?g1))
          \<noteq> map (\<lambda>x. word_of_int (sample_int_clamped x)) (fst (keyboard_click_mix 1 0.15 ?g2))"
    by metis
  with q1 q2 show ?thesis unfolding fr by simp
qed

text \<open>
  C2, amended. The mechanical and thock generators (single and multiple clicks) seed the
  module-level generator themselves with a fixed constant (42, 44, 45, 46), so their result is
  the same whatever the state of the generator on entry; \<open>main\<close> of
  \<^verbatim>\<open>generate-sounds.py\<close> seeds it (42, then 43) before each call of
  \<open>generate_keyboard_click\<close>, so its outcome and the files it writes are the same whatever the
  state on entry. The seed is a constant in the code, not a parameter.
\<close>

theorem deterministic_given_generator_state:
  "generate_mechanical_keyboard_click mt filename volume g d
     = generate_mechanical_keyboard_click mt filename volume g' d
   \<and> generate_multiple_mechanical_clicks mt filename num_clicks volume g d
     = generate_multiple_mechanical_clicks mt filename num_clicks volume g' d
   \<and> generate_thock_click mt filename volume g d = generate_thock_click mt filename volume g' d
   \<and> generate_multiple_thock_clicks mt filename num_clicks volume g d
     = generate_multiple_thock_clicks mt filename num_clicks volume g' d
   \<and> fst (main mt sounds_dir g d) = fst (main mt sounds_dir g' d)
   \<and> snd (snd (main mt sounds_dir g d)) = snd (snd (main mt sounds_dir g' d))"
proof -
  have A: "mech_mix mt g = mech_mix mt g'"
    by (simp add: mech_mix_def mech_noise_def random_seed_def Let_def)
  have B: "mech_multi_mix mt num_clicks g = mech_multi_mix mt num_clicks g'"
    by (simp add: mech_multi_mix_def random_seed_def Let_def)
  have C: "thock_mix mt g = thock_mix mt g'"
    by (simp add: thock_mix_def thock_noise_def random_seed_def Let_def)
  have D: "thock_multi_mix mt num_clicks g = thock_multi_mix mt num_clicks g'"
    by (simp add: thock_multi_mix_def thock_multi_loop_def thock_multi_init_def random_seed_def Let_def)
  have E: "fst (main mt sounds_dir g d) = fst (main mt sounds_dir g' d)
         \<and> snd (snd (main mt sounds_dir g d)) = snd (snd (main mt sounds_dir g' d))"
    by (simp add: main_def random_seed_def split: prod.splits sum.splits)
  show ?thesis
    using E by (simp add: generate_mechanical_keyboard_click_def generate_multiple_mechanical_clicks_def
        generate_thock_click_def generate_multiple_thock_clicks_def A B C D)
qed

subsection \<open>C3: quantisation\<close>

text \<open>
  C3, as stated, fails: the writers truncate towards zero, they do not round to the nearest
  integer. A buffer whose only sample is 1, encoded at volume 0.1, gives the sample \<open>0.1\<close>,
  which is stored as \<open>3276\<close>, while \<open>round (0.1 * 32767) = 3277\<close>.
\<close>

theorem quantise_rounds_counterexample:
  "encode [1] 0.1 = Inr [3276] \<and> sample_int_clamped 0.1 = 3276
   \<and> round (max (- 1) (min 1 (0.1::real)) * 32767) = 3277"
  by (simp add: encode_def final_pass_def sample_int_clamped_def py_int_def round_def)

text \<open>
  C3, amended. The clamping writers (keyboard click, mechanical click, thock) store
  \<open>int (clamp s (-1) 1 * 32767)\<close>, the clamped and scaled sample truncated towards zero: the
  stored value is never larger in magnitude than the scaled sample, differs from it by less
  than 1 and lies in \<open>[-32767, 32767]\<close>. The writers of the tone, the chord and the melody store
  \<open>int (s * 32767)\<close> with no clamp, which is the same value whenever \<open>\<bar>s\<bar> \<le> 1\<close>.
\<close>

theorem quantise_truncates: "sample_int_clamped s = py_int (max (- 1) (min 1 s) * 32767)
   \<and> \<bar>real_of_int (sample_int_clamped s)\<bar> \<le> \<bar>max (- 1) (min 1 s) * 32767\<bar>
   \<and> \<bar>max (- 1) (min 1 s) * 32767 - real_of_int (sample_int_clamped s)\<bar> < 1
   \<and> \<bar>sample_int_clamped s\<bar> \<le> 32767
   \<and> sample_int_plain s = py_int (s * 32767)
   \<and> (\<bar>s\<bar> \<le> 1 \<longrightarrow> sample_int_plain s = sample_int_clamped s)"
  using py_int_trunc [of "max (- 1) (min 1 s) * 32767"]
  by (simp add: sample_int_clamped_def clamp_scale sample_int_clamped_bound [unfolded sample_int_clamped_def clamp_scale]
      sample_int_plain_eq [unfolded sample_int_clamped_def clamp_scale] sample_int_plain_def)

theorem quantise_truncates_witness:
  "\<bar>0.1::real\<bar> \<le> 1 \<and> sample_int_plain 0.1 = sample_int_clamped 0.1"
proof -
  have h: "\<bar>0.1::real\<bar> \<le> 1" by simp
  with quantise_truncates [of "0.1"] show ?thesis by blast
qed

subsection \<open>C4: the length of the buffer\<close>




subsection \<open>C5: the window of an event\<close>



subsection \<open>C6: mixing is additive\<close>

text \<open>
  C6. Every component is added into the buffer, none replaces a sample: after the loop
  \<open>add_from\<close> the sample at index \<open>k\<close> is the old sample plus the contribution of the
  event (zero outside its window). Hence the buffer of the mechanical click is the sample-wise sum
  of its four components synthesised alone on a silent buffer; the melody of any two tones is the
  sample-wise sum of the two tones synthesised alone, and the melody \<open>complete.wav\<close> is the sum
  of its three tones synthesised alone. Over the reals this holds whether or not the windows
  are disjoint.
\<close>

theorem mixing_additive:
  "fst (mech_mix mt g) =
     map2 (+) (map2 (+) (map2 (+) (mech_click mech_num_samples (zeros mech_num_samples))
                                  (mech_clack mech_num_samples (zeros mech_num_samples)))
                        (mech_thock mech_num_samples (zeros mech_num_samples)))
              (fst (mech_noise mt mech_num_samples (zeros mech_num_samples, g)))
   \<and> (0 \<le> start2 \<longrightarrow>
        complete_mix [(freq1, start1, dur1), (freq2, start2, dur2)] =
          map2 (+) (complete_mix [(freq1, start1, dur1)]) (complete_mix [(freq2, start2, dur2)]))
   \<and> complete_mix complete_tones =
        map2 (+) (map2 (+) (complete_mix [complete_tones ! 0]) (complete_mix [complete_tones ! 1]))
                 (complete_mix [complete_tones ! 2])
   \<and> (0 \<le> start \<and> n \<le> int (length s) \<and> k < length s \<longrightarrow>
        add_from n start c f s ! k =
          s ! k + (if start \<le> int k \<and> int k < start + c \<and> int k < n
                   then f (nat (int k - start)) else 0))"
proof -
  let ?n = mech_num_samples
  let ?z = "zeros ?n"
  have z: "replicate (nat ?n) 0 = ?z" by (simp add: zeros_def)
  have n: "?n \<le> int (nat ?n)" by (simp add: mech_num_samples_eq)
  have "fst (mech_mix mt g) =
          fst (mech_noise mt ?n (mech_thock ?n (mech_clack ?n (mech_click ?n ?z)), g))"
    by (simp add: mech_mix_def Let_def)
  also have "\<dots> = map2 (+) (mech_thock ?n (mech_clack ?n (mech_click ?n ?z)))
                             (fst (mech_noise mt ?n (?z, g)))"
    by (subst mech_noise_plus [where g' = g]) (simp add: z)
  also have "mech_thock ?n (mech_clack ?n (mech_click ?n ?z)) =
               map2 (+) (mech_clack ?n (mech_click ?n ?z)) (mech_thock ?n ?z)"
    by (subst mech_thock_plus) (simp_all add: z n)
  also have "mech_clack ?n (mech_click ?n ?z) = map2 (+) (mech_click ?n ?z) (mech_clack ?n ?z)"
    by (subst mech_clack_plus) (simp_all add: z n)
  finally have A: "fst (mech_mix mt g) =
     map2 (+) (map2 (+) (map2 (+) (mech_click ?n ?z) (mech_clack ?n ?z)) (mech_thock ?n ?z))
              (fst (mech_noise mt ?n (?z, g)))" .
  have B: "0 \<le> start2 \<longrightarrow>
        complete_mix [(freq1, start1, dur1), (freq2, start2, dur2)] =
          map2 (+) (complete_mix [(freq1, start1, dur1)]) (complete_mix [(freq2, start2, dur2)])"
    using complete_mix_two [of start2 "[(freq1, start1, dur1)]" freq2 dur2] by simp
  have "complete_mix complete_tones =
          map2 (+) (complete_mix [(523.25, 0.0, 0.15), (659.25, 0.15, 0.15)]) (complete_mix [(783.99, 0.3, 0.3)])"
    using complete_mix_two [of "0.3" "[(523.25, 0.0, 0.15), (659.25, 0.15, 0.15)]" "783.99" "0.3"]
    by (simp add: complete_tones_def)
  also have "complete_mix [(523.25, 0.0, 0.15), (659.25, 0.15, 0.15)] =
          map2 (+) (complete_mix [(523.25, 0.0, 0.15)]) (complete_mix [(659.25, 0.15, 0.15)])"
    using complete_mix_two [of "0.15" "[(523.25, 0.0, 0.15)]" "659.25" "0.15"] by simp
  finally have C: "complete_mix complete_tones =
        map2 (+) (map2 (+) (complete_mix [complete_tones ! 0]) (complete_mix [complete_tones ! 1]))
                 (complete_mix [complete_tones ! 2])"
    by (simp add: complete_tones_def)
  have D: "0 \<le> start \<and> n \<le> int (length s) \<and> k < length s \<longrightarrow>
        add_from n start c f s ! k =
          s ! k + (if start \<le> int k \<and> int k < start + c \<and> int k < n
                   then f (nat (int k - start)) else 0)"
    using nth_add_from [of start n s k c f] by blast
  from A B C D show ?thesis by blast
qed

theorem mixing_additive_witness:
  "(0::real) \<le> 0.15
   \<and> complete_mix [(523.25, 0, 0.15), (659.25, 0.15, 0.15)] =
        map2 (+) (complete_mix [(523.25, 0, 0.15)]) (complete_mix [(659.25, 0.15, 0.15)])
   \<and> (0::int) \<le> 1 \<and> 3 \<le> int (length [1, 2, 3::real]) \<and> 2 < length [1, 2, 3::real]
   \<and> add_from 3 1 5 (\<lambda>i. 10) [1, 2, 3] ! 2 = 13"
proof -
  have h: "(0::real) \<le> 0.15" "(0::int) \<le> 1 \<and> 3 \<le> int (length [1, 2, 3::real]) \<and> 2 < length [1, 2, 3::real]"
    by simp_all
  from mixing_additive [where ?start2.0 = "0.15" and ?freq1.0 = "523.25" and ?start1.0 = 0
      and ?dur1.0 = "0.15" and ?freq2.0 = "659.25" and ?dur2.0 = "0.15" and start = 1 and n = 3
      and s = "[1, 2, 3]" and k = 2 and c = 5 and f = "\<lambda>i. 10"] h
  show ?thesis by simp
qed

subsection \<open>C7: parameters are not validated\<close>

text \<open>
  C7, as stated, fails: nothing is validated. \<open>generate_thock_click\<close> with volume 2 succeeds,
  and so does \<open>generate_keyboard_click\<close> with no click, whose total duration is negative.
\<close>

theorem invalid_parameter_counterexample:
  "fst (generate_thock_click (\<lambda>_ _. 1 / 2) ''thock.wav'' 2 (\<lambda>_. 0) \<lparr>files = Map.empty, room = 3528\<rparr>)
     = Inr ()
   \<and> fst (generate_keyboard_click ''click.wav'' 0 0.15 (\<lambda>_. 0) \<lparr>files = Map.empty, room = 0\<rparr>)
     = Inr ()"
proof -
  have ne: "fst (thock_mix (\<lambda>_ _. 1 / 2) (\<lambda>_. 0)) \<noteq> []"
    using length_thock_mix [of "\<lambda>_ _. 1 / 2" "\<lambda>_. 0"] by auto
  from finish_frames [OF ne, of 2 "''thock.wav''" "\<lparr>files = Map.empty, room = 3528\<rparr>"]
  have "fst (finish ''thock.wav'' (fst (thock_mix (\<lambda>_ _. 1 / 2) (\<lambda>_. 0))) 2
              \<lparr>files = Map.empty, room = 3528\<rparr>) = Inr ()"
    by (auto simp: length_thock_mix)
  then have "fst (generate_thock_click (\<lambda>_ _. 1 / 2) ''thock.wav'' 2 (\<lambda>_. 0)
                \<lparr>files = Map.empty, room = 3528\<rparr>) = Inr ()"
    by (simp add: generate_thock_click_def Let_def split_beta)
  moreover have "fst (generate_keyboard_click ''click.wav'' 0 0.15 (\<lambda>_. 0) \<lparr>files = Map.empty, room = 0\<rparr>)
     = Inr ()"
    by (simp add: keyboard_click_none)
  ultimately show ?thesis by blast
qed

text \<open>
  C7, amended. No request is rejected for its parameters. For every volume, inside \<open>[0, 1]\<close>
  or not, \<open>generate_thock_click\<close> quantises its 3528 samples into \<open>[-32767, 32767]\<close> and
  succeeds whenever all frames can be written. \<open>generate_keyboard_click\<close> with
  \<open>num_clicks \<le> 0\<close> (a negative total duration) succeeds and leaves an empty file.
  \<open>generate_multiple_mechanical_clicks\<close> with \<open>num_clicks \<le> 0\<close> fails, with the
  \<open>ValueError\<close> of \<open>max\<close> on the empty buffer, before the destination is opened.
\<close>

theorem no_parameter_validation:
  "(\<exists>out. encode (fst (thock_mix mt g)) volume = Inr out \<and> length out = 3528
       \<and> (\<forall>v\<in>set out. \<bar>v\<bar> \<le> 32767))
   \<and> fst (generate_thock_click mt filename volume g d)
           = (if 3528 \<le> room d then Inr () else Inl OSError)
   \<and> (num_clicks \<le> 0 \<longrightarrow>
        generate_keyboard_click filename num_clicks volume g d = (Inr (), g, wave_open filename d))
   \<and> (num_clicks \<le> 0 \<longrightarrow>
        generate_multiple_mechanical_clicks mt filename num_clicks volume g d
          = (Inl ValueError, mt 44, d))"
proof -
  have ne: "fst (thock_mix mt g) \<noteq> []" using length_thock_mix [of mt g] by auto
  from finish_frames [OF ne, of volume filename d] obtain out where
    out: "encode (fst (thock_mix mt g)) volume = Inr out" "length out = length (fst (thock_mix mt g))"
      "fst (finish filename (fst (thock_mix mt g)) volume d)
         = (if length (fst (thock_mix mt g)) \<le> room d then Inr () else Inl OSError)"
    by blast
  have r: "fst (generate_thock_click mt filename volume g d)
             = fst (finish filename (fst (thock_mix mt g)) volume d)"
    by (simp add: generate_thock_click_def Let_def split_beta)
  have A: "\<exists>out. encode (fst (thock_mix mt g)) volume = Inr out \<and> length out = 3528
       \<and> (\<forall>v\<in>set out. \<bar>v\<bar> \<le> 32767)"
    using out encode_bound [OF out(1)]
    by (intro exI [of _ out]) (simp add: length_thock_mix)
  have B: "fst (generate_thock_click mt filename volume g d)
           = (if 3528 \<le> room d then Inr () else Inl OSError)"
    unfolding r using out(3) by (simp add: length_thock_mix)
  from A B keyboard_click_none multiple_mechanical_clicks_none show ?thesis by blast
qed

theorem no_parameter_validation_witness:
  "(0::int) \<le> 0
   \<and> generate_keyboard_click ''out.wav'' 0 0.15 (\<lambda>_. 0) \<lparr>files = Map.empty, room = 0\<rparr>
       = (Inr (), (\<lambda>_. 0), wave_open ''out.wav'' \<lparr>files = Map.empty, room = 0\<rparr>)
   \<and> generate_multiple_mechanical_clicks (\<lambda>_ _. 1 / 2) ''out.wav'' 0 0.15 (\<lambda>_. 0)
         \<lparr>files = Map.empty, room = 0\<rparr>
       = (Inl ValueError, (\<lambda>_. 1 / 2), \<lparr>files = Map.empty, room = 0\<rparr>)
   \<and> fst (generate_thock_click (\<lambda>_ _. 1 / 2) ''out.wav'' 0.15 (\<lambda>_. 0) \<lparr>files = Map.empty, room = 0\<rparr>)
       = Inl OSError"
proof -
  have h: "(0::int) \<le> 0" by simp
  from no_parameter_validation [where num_clicks = 0 and mt = "\<lambda>_ _. 1 / 2" and g = "\<lambda>_. 0"
      and volume = "0.15" and d = "\<lparr>files = Map.empty, room = 0\<rparr>" and filename = "''out.wav''"]
  show ?thesis by simp
qed

subsection \<open>C8: the offsets of a click sequence and the jitter\<close>



subsection \<open>C9: a failing write\<close>




subsection \<open>C10: the writers without a clamp\<close>

text \<open>
  C10. For every volume in \<open>[0, 1]\<close> the values that \<open>generate_tone\<close> and \<open>generate_chord\<close>
  hand to \<open>struct.pack('h', _)\<close> lie in the signed 16-bit range, are packed without error and
  read back unchanged; neither function raises \<open>struct.error\<close>, and \<open>generate_chord\<close> computes
  its samples whenever it is given at least one frequency. The three tones of the melody occupy
  disjoint windows, so every sample of the melody is at most 0.25 in magnitude and its quantised
  value fits as well.
\<close>

theorem unclamped_writers_fit:
  assumes "0 \<le> volume" "volume \<le> 1"
  shows "(\<forall>v\<in>set (tone_values frequency duration volume).
            - 32768 \<le> v \<and> v \<le> 32767 \<and> pack_h v = Inr (word_of_int v)
            \<and> sint (word_of_int v :: 16 word) = v)
       \<and> fst (generate_tone filename frequency duration volume d) \<noteq> Inl StructError
       \<and> (\<forall>vs. chord_values frequencies duration volume = Inr vs \<longrightarrow>
            (\<forall>v\<in>set vs. - 32768 \<le> v \<and> v \<le> 32767 \<and> pack_h v = Inr (word_of_int v)
               \<and> sint (word_of_int v :: 16 word) = v))
       \<and> (frequencies \<noteq> [] \<longrightarrow> (\<exists>vs. chord_values frequencies duration volume = Inr vs))
       \<and> fst (generate_chord filename frequencies duration volume d) \<noteq> Inl StructError
       \<and> (\<forall>x\<in>set (complete_mix complete_tones).
            \<bar>x\<bar> \<le> 0.25 \<and> - 32768 \<le> sample_int_plain x \<and> sample_int_plain x \<le> 32767
            \<and> pack_h (sample_int_plain x) = Inr (word_of_int (sample_int_plain x))
            \<and> sint (word_of_int (sample_int_plain x) :: 16 word) = sample_int_plain x)
       \<and> fst (write_wav filename sample_int_plain (complete_mix complete_tones) d) \<noteq> Inl StructError"
proof -
  have t: "\<forall>v\<in>set (tone_values frequency duration volume). \<bar>v\<bar> \<le> 32767"
    using tone_values_fit [OF assms] by blast
  have A: "\<forall>v\<in>set (tone_values frequency duration volume).
            - 32768 \<le> v \<and> v \<le> 32767 \<and> pack_h v = Inr (word_of_int v)
            \<and> sint (word_of_int v :: 16 word) = v"
    using t fits_pack by blast
  have B: "fst (generate_tone filename frequency duration volume d) \<noteq> Inl StructError"
    unfolding generate_tone_def using t by (intro write_wav_no_struct_error) simp
  have c: "\<forall>v\<in>set vs. \<bar>v\<bar> \<le> 32767" if "chord_values frequencies duration volume = Inr vs" for vs
    using chord_values_fit [OF assms that] by blast
  have C: "\<forall>vs. chord_values frequencies duration volume = Inr vs \<longrightarrow>
            (\<forall>v\<in>set vs. - 32768 \<le> v \<and> v \<le> 32767 \<and> pack_h v = Inr (word_of_int v)
               \<and> sint (word_of_int v :: 16 word) = v)"
    using c fits_pack by blast
  have D: "frequencies \<noteq> [] \<longrightarrow> (\<exists>vs. chord_values frequencies duration volume = Inr vs)"
    using chord_values_total by blast
  have E: "fst (generate_chord filename frequencies duration volume d) \<noteq> Inl StructError"
  proof (cases "chord_values frequencies duration volume")
    case (Inl e)
    then show ?thesis using chord_values_error [OF Inl] by (simp add: generate_chord_def)
  next
    case (Inr vs)
    have "fst (write_wav filename id vs d) \<noteq> Inl StructError"
      using c [OF Inr] by (intro write_wav_no_struct_error) simp
    then show ?thesis using Inr by (simp add: generate_chord_def)
  qed
  have m: "\<forall>x\<in>set (complete_mix complete_tones). \<bar>sample_int_plain x\<bar> \<le> 32767"
    using complete_mix_bound sample_int_plain_fit by blast
  have F: "\<forall>x\<in>set (complete_mix complete_tones).
            \<bar>x\<bar> \<le> 0.25 \<and> - 32768 \<le> sample_int_plain x \<and> sample_int_plain x \<le> 32767
            \<and> pack_h (sample_int_plain x) = Inr (word_of_int (sample_int_plain x))
            \<and> sint (word_of_int (sample_int_plain x) :: 16 word) = sample_int_plain x"
    using m complete_mix_bound fits_pack by blast
  have G: "fst (write_wav filename sample_int_plain (complete_mix complete_tones) d) \<noteq> Inl StructError"
    using m by (rule write_wav_no_struct_error)
  from A B C D E F G show ?thesis by blast
qed

theorem unclamped_writers_fit_witness:
  "(0::real) \<le> 0.25 \<and> (0.25::real) \<le> 1
   \<and> fst (generate_tone ''subtle.wav'' 880 0.4 0.25 \<lparr>files = Map.empty, room = 0\<rparr>) \<noteq> Inl StructError
   \<and> [800, 1000, 1200::real] \<noteq> []
   \<and> (\<exists>vs. chord_values [800, 1000, 1200] 0.4 0.25 = Inr vs)"
proof -
  have h: "(0::real) \<le> 0.25" "(0.25::real) \<le> 1" "[800, 1000, 1200::real] \<noteq> []" by simp_all
  from unclamped_writers_fit [OF h(1,2), of 880 "0.4" "''subtle.wav''" "\<lparr>files = Map.empty, room = 0\<rparr>"
      "[800, 1000, 1200]"] h
  show ?thesis by blast
qed

end
